theory Spec2Isabelle
  imports Main "HOL-Library.Word"
begin

section \<open>ByteStreamController: a bounded byte buffer between producers and one consumer\<close>

text \<open>
  The development embeds \<^verbatim>\<open>TestTaskSecondSGK/src/async_controller.cpp\<close> and its header
  \<^verbatim>\<open>include/async_controller.hpp\<close>.

  The repository holds a second copy of this translation unit, after the elevator code in
  \<^verbatim>\<open>TestTaskFirstSGK/src/elevator_controller.cpp\<close>. The two copies agree except in
  \<^verbatim>\<open>sync_get_data\<close>: the second copy returns \<^verbatim>\<open>ErrorCode::InvalidArgs\<close> when
  \<^verbatim>\<open>min_bytes > max_bytes\<close>, takes \<^verbatim>\<open>std::min(bytes_available, max_bytes)\<close> bytes and
  reports \<^verbatim>\<open>stopped_ ? ControllerStopped : NoError\<close>. Where the embedded copy departs from
  it, the sections below say so.

  Every public member function runs its buffer accesses under \<^verbatim>\<open>mutex_\<close>, so a call is
  one atomic transition of the controller's state; the model passes that state explicitly.
  The one place where a call gives up the mutex in its middle is the \<^verbatim>\<open>cv_.wait_for\<close> of
  \<^verbatim>\<open>sync_get_data\<close>: what the other threads do meanwhile is an argument of the model
  (see \<open>wait_for\<close> below). \<^verbatim>\<open>async_add_data\<close> reads \<^verbatim>\<open>stopped_\<close> just before it
  takes the mutex; the model reads the flag in the same transition, so a \<^verbatim>\<open>stop()\<close>
  falling between that read and the insert is not represented (it would change neither
  the capacity test nor the insert).

  \<^verbatim>\<open>size_t\<close> values are natural numbers here. The code only compares them and takes
  \<^verbatim>\<open>std::min\<close> and \<^verbatim>\<open>std::max\<close> of them; its single addition,
  \<^verbatim>\<open>buffer_.size() + data.size()\<close>, adds the sizes of two objects that exist in memory
  at the same time, which cannot wrap around in 64 bits. Failure of a memory allocation
  (\<^verbatim>\<open>reserve\<close>) is a matter of the host and is not modelled.
\<close>

subsection \<open>Data\<close>

type_synonym Byte = "8 word"
type_synonym ByteVec = "Byte list"

text \<open>\<^verbatim>\<open>enum class ErrorCode\<close>, in the order of the header.\<close>

datatype ErrorCode = NoError | BufferOverflow | ControllerStopped | Timeout

text \<open>\<^verbatim>\<open>struct Result\<close>.\<close>

record Result =
  data :: ByteVec
  error :: ErrorCode
  dropped_bytes :: nat
  buffer_size :: nat

text \<open>
  The data members of the class: \<^verbatim>\<open>buffer_\<close>, \<^verbatim>\<open>max_buffer_size_\<close> and \<^verbatim>\<open>stopped_\<close>
  (the mutex and the condition variable carry no data).
\<close>

record ByteStreamController =
  buffer :: ByteVec
  max_buffer_size :: nat
  stopped :: bool

subsection \<open>Construction, stop and start\<close>

text \<open>
  The constructor stores the capacity, clears the flag and reserves storage; the buffer
  is empty. It looks at its argument no further.
\<close>

definition new_controller :: "nat \<Rightarrow> ByteStreamController" where
  "new_controller n = \<lparr>buffer = [], max_buffer_size = n, stopped = False\<rparr>"

definition stop :: "ByteStreamController \<Rightarrow> ByteStreamController" where
  "stop c = c\<lparr>stopped := True\<rparr>"

definition start :: "ByteStreamController \<Rightarrow> ByteStreamController" where
  "start c = c\<lparr>stopped := False\<rparr>"

definition current_buffer_size :: "ByteStreamController \<Rightarrow> nat" where
  "current_buffer_size c = length (buffer c)"

definition is_stopped :: "ByteStreamController \<Rightarrow> bool" where
  "is_stopped c = stopped c"

subsection \<open>async_add_data\<close>

text \<open>
  The flag is tested first, then the capacity; only then is the data inserted at the end.
  The result is the error code and the state after the call.
\<close>

definition async_add_data ::
  "ByteStreamController \<Rightarrow> ByteVec \<Rightarrow> ErrorCode \<times> ByteStreamController" where
  "async_add_data c d =
     (if stopped c then (ControllerStopped, c)
      else if length (buffer c) + length d > max_buffer_size c then (BufferOverflow, c)
      else (NoError, c\<lparr>buffer := buffer c @ d\<rparr>))"

text \<open>\<^verbatim>\<open>get_callback\<close>: the closure calls \<^verbatim>\<open>async_add_data\<close> and drops its error code.\<close>

definition get_callback :: "ByteStreamController \<Rightarrow> ByteVec \<Rightarrow> ByteStreamController" where
  "get_callback c d = snd (async_add_data c d)"

subsection \<open>The wait of sync_get_data\<close>

text \<open>
  While the consumer sleeps in \<^verbatim>\<open>cv_.wait_for\<close> the mutex is free and other threads
  call the controller: a producer adds data, somebody stops or starts it.
\<close>

datatype action = Add ByteVec | Stop | Start

fun act :: "ByteStreamController \<Rightarrow> action \<Rightarrow> ByteStreamController" where
  "act c (Add d) = get_callback c d"
| "act c Stop = stop c"
| "act c Start = start c"

definition acts :: "ByteStreamController \<Rightarrow> action list \<Rightarrow> ByteStreamController" where
  "acts c as = foldl act c as"

text \<open>The predicate handed to \<^verbatim>\<open>wait_for\<close>: \<^verbatim>\<open>stopped_ || buffer_.size() >= min_bytes\<close>.\<close>

definition ready :: "nat \<Rightarrow> ByteStreamController \<Rightarrow> bool" where
  "ready min_bytes c \<longleftrightarrow> stopped c \<or> length (buffer c) \<ge> min_bytes"

text \<open>
  \<^verbatim>\<open>wait_for(lock, timeout, pred)\<close> is the library's loop
  \<^verbatim>\<open>while (!pred()) if (wait_until(lock, deadline) == timeout) return pred(); return true;\<close>.
  The duration is real time; the model replaces it by what happens before the deadline:
  the list \<open>sleeps\<close> has one entry for each time the consumer sleeps, holding the calls
  the other threads make during that sleep (none for a spurious wake-up). After each
  sleep the predicate is tested again; when the list is used up the deadline has passed
  and the value of the predicate is the result. The function returns the state in which
  the consumer holds the mutex again, and that value.
\<close>

fun wait_for ::
  "nat \<Rightarrow> ByteStreamController \<Rightarrow> action list list \<Rightarrow> ByteStreamController \<times> bool" where
  "wait_for min_bytes c [] = (c, ready min_bytes c)"
| "wait_for min_bytes c (as # sleeps) =
     (if ready min_bytes c then (c, True) else wait_for min_bytes (acts c as) sleeps)"

subsection \<open>sync_get_data\<close>

text \<open>
  The iterator range \<^verbatim>\<open>[buffer_.begin(), buffer_.begin() + actual_bytes)\<close> is read and
  then erased. When \<^verbatim>\<open>actual_bytes\<close> exceeds \<^verbatim>\<open>buffer_.size()\<close> the range runs past
  \<^verbatim>\<open>end()\<close>: the behaviour of the program is undefined from there on (unless
  \<^verbatim>\<open>result.reserve\<close> has already thrown for a size no vector can have), and the model
  stops with a fault instead of a result and a next state.
\<close>

datatype fault = RangePastEnd

definition bytes_to_take :: "ByteStreamController \<Rightarrow> nat \<Rightarrow> nat" where
  "bytes_to_take c max_bytes = min (length (buffer c)) max_bytes"

definition actual_bytes :: "ByteStreamController \<Rightarrow> nat \<Rightarrow> nat \<Rightarrow> nat" where
  "actual_bytes c min_bytes max_bytes = max (bytes_to_take c max_bytes) min_bytes"

definition sync_get_data ::
  "ByteStreamController \<Rightarrow> nat \<Rightarrow> nat \<Rightarrow> action list list \<Rightarrow>
   fault + Result \<times> ByteStreamController" where
  "sync_get_data c min_bytes max_bytes sleeps =
     (case wait_for min_bytes c sleeps of
        (c1, False) \<Rightarrow>
          Inr (\<lparr>data = [], error = Timeout, dropped_bytes = 0,
                 buffer_size = length (buffer c1)\<rparr>, c1)
      | (c1, True) \<Rightarrow>
          if stopped c1 \<and> buffer c1 = [] then
            Inr (\<lparr>data = [], error = ControllerStopped, dropped_bytes = 0,
                   buffer_size = 0\<rparr>, c1)
          else
            let n = actual_bytes c1 min_bytes max_bytes in
            if n > length (buffer c1) then Inl RangePastEnd
            else
              let c2 = c1\<lparr>buffer := drop n (buffer c1)\<rparr> in
              Inr (\<lparr>data = take n (buffer c1), error = NoError, dropped_bytes = 0,
                     buffer_size = length (buffer c2)\<rparr>, c2))"

subsection \<open>Sequences of calls\<close>

text \<open>
  A producer that calls \<open>async_add_data\<close> for each element of a list in turn, keeping
  the error codes.
\<close>

fun add_all ::
  "ByteStreamController \<Rightarrow> ByteVec list \<Rightarrow> ErrorCode list \<times> ByteStreamController" where
  "add_all c [] = ([], c)"
| "add_all c (d # ds) =
     (case async_add_data c d of
        (e, c1) \<Rightarrow> (case add_all c1 ds of (es, c2) \<Rightarrow> (e # es, c2)))"

text \<open>
  The public member functions as values, and a program that calls them one after the
  other on one controller. The two queries change nothing; a call of \<open>sync_get_data\<close>
  that faults ends the run.
\<close>

datatype call =
    AddData ByteVec
  | GetData nat nat "action list list"
  | CallStop
  | CallStart
  | CurrentBufferSize
  | IsStopped

fun exec :: "ByteStreamController \<Rightarrow> call \<Rightarrow> fault + ByteStreamController" where
  "exec c (AddData d) = Inr (snd (async_add_data c d))"
| "exec c (GetData min_bytes max_bytes sleeps) =
     (case sync_get_data c min_bytes max_bytes sleeps of
        Inl f \<Rightarrow> Inl f
      | Inr (r, c1) \<Rightarrow> Inr c1)"
| "exec c CallStop = Inr (stop c)"
| "exec c CallStart = Inr (start c)"
| "exec c CurrentBufferSize = Inr c"
| "exec c IsStopped = Inr c"

fun run :: "ByteStreamController \<Rightarrow> call list \<Rightarrow> fault + ByteStreamController" where
  "run c [] = Inr c"
| "run c (x # xs) = (case exec c x of Inl f \<Rightarrow> Inl f | Inr c1 \<Rightarrow> run c1 xs)"

text \<open>
  The consumer finds the predicate of its wait false every time it looks: at the start
  and after each sleep, the controller is not stopped and holds fewer than
  \<open>min_bytes\<close> bytes.
\<close>

fun starved :: "nat \<Rightarrow> ByteStreamController \<Rightarrow> action list list \<Rightarrow> bool" where
  "starved min_bytes c [] \<longleftrightarrow> \<not> stopped c \<and> length (buffer c) < min_bytes"
| "starved min_bytes c (as # sleeps) \<longleftrightarrow>
     \<not> stopped c \<and> length (buffer c) < min_bytes \<and> starved min_bytes (acts c as) sleeps"

text \<open>
  The bound of the buffer: the capacity is the one given at construction and the buffer
  holds no more bytes than that.
\<close>

definition bounded :: "nat \<Rightarrow> ByteStreamController \<Rightarrow> bool" where
  "bounded n c \<longleftrightarrow> max_buffer_size c = n \<and> length (buffer c) \<le> n"

section \<open>Facts about the wait\<close>

lemma wait_for_ready: "ready m c \<Longrightarrow> wait_for m c sleeps = (c, True)"
  by (cases sleeps) simp_all

lemma acts_append: "acts c (as @ bs) = acts (acts c as) bs"
  by (simp add: acts_def)

lemma starved_wait_for:
  "starved m c sleeps \<Longrightarrow> wait_for m c sleeps = (acts c (concat sleeps), False)"
proof (induction sleeps arbitrary: c)
  case Nil
  then show ?case by (simp add: ready_def acts_def)
next
  case (Cons as sleeps)
  then show ?case by (simp add: ready_def acts_append)
qed

section \<open>Properties of async_add_data\<close>

text \<open>
  C9. A call of \<open>async_add_data\<close> on a stopped controller returns
  \<open>ControllerStopped\<close> and changes nothing: the state after the call is the state
  before it, so the buffer has the same content and the same length.
\<close>

theorem add_when_stopped:
  "stopped c \<Longrightarrow> async_add_data c d = (ControllerStopped, c)"
  by (simp add: async_add_data_def)

theorem add_when_stopped_witness:
  "stopped (stop (snd (async_add_data (new_controller 4) [1, 2]))) \<and>
   async_add_data (stop (snd (async_add_data (new_controller 4) [1, 2]))) [3]
     = (ControllerStopped, \<lparr>buffer = [1, 2], max_buffer_size = 4, stopped = True\<rparr>)"
  using add_when_stopped [of "stop (snd (async_add_data (new_controller 4) [1, 2]))" "[3]"]
  by (simp add: async_add_data_def new_controller_def stop_def)

text \<open>
  C6. On a controller that is not stopped, a call of \<open>async_add_data\<close> whose data
  does not fit (the buffer's length plus the data's length exceeds the capacity) returns
  \<open>BufferOverflow\<close> and leaves the state as it was: no part of the data is appended.
\<close>

theorem add_overflow_rejected:
  "\<not> stopped c \<Longrightarrow> length (buffer c) + length d > max_buffer_size c \<Longrightarrow>
   async_add_data c d = (BufferOverflow, c)"
  by (simp add: async_add_data_def)

theorem add_overflow_rejected_witness:
  "\<not> stopped \<lparr>buffer = [1, 2, 3], max_buffer_size = 4, stopped = False\<rparr> \<and>
   length (buffer \<lparr>buffer = [1, 2, 3], max_buffer_size = 4, stopped = False\<rparr>) + length [7, 8 :: Byte]
     > max_buffer_size \<lparr>buffer = [1, 2, 3], max_buffer_size = 4, stopped = False\<rparr> \<and>
   async_add_data \<lparr>buffer = [1, 2, 3], max_buffer_size = 4, stopped = False\<rparr> [7, 8]
     = (BufferOverflow, \<lparr>buffer = [1, 2, 3], max_buffer_size = 4, stopped = False\<rparr>)"
  using add_overflow_rejected
    [of "\<lparr>buffer = [1, 2, 3], max_buffer_size = 4, stopped = False\<rparr>" "[7, 8]"]
  by simp

lemma add_all_fits:
  "\<not> stopped c \<Longrightarrow> length (buffer c) + length (concat ds) \<le> max_buffer_size c \<Longrightarrow>
   add_all c ds = (replicate (length ds) NoError, c\<lparr>buffer := buffer c @ concat ds\<rparr>)"
proof (induction ds arbitrary: c)
  case Nil
  then show ?case by simp
next
  case (Cons d ds)
  let ?c1 = "c\<lparr>buffer := buffer c @ d\<rparr>"
  from Cons.prems have step: "async_add_data c d = (NoError, ?c1)"
    by (simp add: async_add_data_def)
  from Cons.prems have "\<not> stopped ?c1"
    and "length (buffer ?c1) + length (concat ds) \<le> max_buffer_size ?c1"
    by simp_all
  from Cons.IH [OF this] step show ?case by simp
qed

section \<open>The number of bytes sync_get_data takes\<close>

text \<open>
  Inside the contract of the header (\<open>min_bytes \<le> max_bytes\<close>) and with at least
  \<open>min_bytes\<close> bytes buffered, \<^verbatim>\<open>actual_bytes\<close> is the smaller of the buffer's length
  and \<open>max_bytes\<close>, and the range lies within the buffer.
\<close>

lemma actual_bytes_in_contract:
  "min_bytes \<le> max_bytes \<Longrightarrow> min_bytes \<le> length (buffer c) \<Longrightarrow>
   actual_bytes c min_bytes max_bytes = min (length (buffer c)) max_bytes \<and>
   actual_bytes c min_bytes max_bytes \<le> length (buffer c)"
  by (simp add: actual_bytes_def bytes_to_take_def)

text \<open>
  C1. The number of bytes taken is \<^verbatim>\<open>std::max(bytes_to_take, min_bytes)\<close>, which is
  not always the smaller of the buffer's length and \<open>max_bytes\<close>. A controller stopped
  with 3 bytes and asked for at least 5 and at most 10 computes 5 where that minimum is 3,
  and the range runs past the end of the buffer. A controller with 5 bytes asked for at
  least 3 and at most 1 hands out 3 bytes where that minimum is 1.
\<close>

theorem take_count_exceeds:
  "actual_bytes (stop (snd (async_add_data (new_controller 8) [1, 2, 3]))) 5 10 = 5 \<and>
   min (length (buffer (stop (snd (async_add_data (new_controller 8) [1, 2, 3]))))) 10 = (3::nat) \<and>
   sync_get_data (stop (snd (async_add_data (new_controller 8) [1, 2, 3]))) 5 10 [] =
     Inl RangePastEnd \<and>
   sync_get_data \<lparr>buffer = [1, 2, 3, 4, 5], max_buffer_size = 8, stopped = False\<rparr> 3 1 [] =
     Inr (\<lparr>data = [1, 2, 3], error = NoError, dropped_bytes = 0, buffer_size = 2\<rparr>,
          \<lparr>buffer = [4, 5], max_buffer_size = 8, stopped = False\<rparr>) \<and>
   min (length [1, 2, 3, 4, 5 :: Byte]) 1 = (1::nat)"
  by (simp add: sync_get_data_def ready_def actual_bytes_def bytes_to_take_def
        new_controller_def async_add_data_def stop_def)

text \<open>
  C2. The range that is read and erased does not always stay within the buffer. A
  controller of capacity 4 that holds 2 bytes and is stopped satisfies the predicate of
  the wait; asked for at least 4 bytes it computes \<^verbatim>\<open>actual_bytes\<close> = 4, more than the
  2 bytes there are, and the call faults. The same happens when the stop arrives while
  the consumer sleeps.
\<close>

theorem range_past_end_when_stopped_short:
  "stopped (stop (snd (async_add_data (new_controller 4) [7, 9]))) \<and>
   length (buffer (stop (snd (async_add_data (new_controller 4) [7, 9])))) = 2 \<and>
   actual_bytes (stop (snd (async_add_data (new_controller 4) [7, 9]))) 4 4 = 4 \<and>
   sync_get_data (stop (snd (async_add_data (new_controller 4) [7, 9]))) 4 4 [] =
     Inl RangePastEnd \<and>
   sync_get_data (new_controller 4) 4 4 [[Add [7, 9]], [Stop]] = Inl RangePastEnd"
  by (simp add: sync_get_data_def ready_def actual_bytes_def bytes_to_take_def
        new_controller_def async_add_data_def stop_def acts_def get_callback_def)

section \<open>The status sync_get_data reports\<close>

text \<open>
  Three facts about every call: on a stopped controller with an empty buffer the result is
  \<open>ControllerStopped\<close> with no data; a result with status \<open>NoError\<close> holds at least
  \<open>min_bytes\<close> bytes; and on a stopped controller that holds bytes, a call that returns
  a result reports \<open>NoError\<close> and hands out a prefix of the buffer.
\<close>

lemma sync_get_data_stopped_empty:
  "stopped c \<Longrightarrow> buffer c = [] \<Longrightarrow>
   sync_get_data c m k sleeps =
     Inr (\<lparr>data = [], error = ControllerStopped, dropped_bytes = 0, buffer_size = 0\<rparr>, c)"
  by (simp add: sync_get_data_def wait_for_ready ready_def)

lemma sync_get_data_NoError:
  assumes "sync_get_data c m k sleeps = Inr (r, c')" and "error r = NoError"
  shows "m \<le> length (data r)"
proof -
  obtain c1 b where w: "wait_for m c sleeps = (c1, b)" by (cases "wait_for m c sleeps")
  with assms show ?thesis
    by (auto simp: sync_get_data_def Let_def actual_bytes_def bytes_to_take_def
             split: if_splits bool.splits)
qed

lemma sync_get_data_stopped_residual:
  assumes "stopped c" and "buffer c \<noteq> []" and "sync_get_data c m k sleeps = Inr (r, c')"
  shows "error r = NoError \<and> stopped c' \<and>
         data r = take (length (data r)) (buffer c) \<and>
         buffer c' = drop (length (data r)) (buffer c)"
proof -
  have "wait_for m c sleeps = (c, True)" using assms(1) by (simp add: wait_for_ready ready_def)
  with assms show ?thesis
    by (auto simp: sync_get_data_def Let_def split: if_splits)
qed

text \<open>
  C3. A stopped controller that still holds bytes does not report \<open>ControllerStopped\<close>
  when it hands them out: \<^verbatim>\<open>ControllerStopped\<close> is returned only when the buffer is
  empty as well, and every extraction returns \<^verbatim>\<open>ErrorCode::NoError\<close>, where the second
  copy returns \<^verbatim>\<open>stopped_ ? ControllerStopped : NoError\<close>. A controller stopped with the
  3 bytes 1, 2, 3 answers a call for at least 0 and at most 10 bytes with those bytes and
  \<open>NoError\<close>; the next call, on the empty buffer, returns \<open>ControllerStopped\<close> with
  no data. A controller stopped with 3 bytes and asked for at least 5 does not return the
  3 bytes with \<open>ControllerStopped\<close> either: the range runs past the end of the buffer.
\<close>

theorem drain_reports_no_error:
  "sync_get_data (stop (snd (async_add_data (new_controller 8) [1, 2, 3]))) 0 10 [] =
     Inr (\<lparr>data = [1, 2, 3], error = NoError, dropped_bytes = 0, buffer_size = 0\<rparr>,
          \<lparr>buffer = [], max_buffer_size = 8, stopped = True\<rparr>) \<and>
   NoError \<noteq> ControllerStopped \<and>
   sync_get_data \<lparr>buffer = [], max_buffer_size = 8, stopped = True\<rparr> 0 10 [] =
     Inr (\<lparr>data = [], error = ControllerStopped, dropped_bytes = 0, buffer_size = 0\<rparr>,
          \<lparr>buffer = [], max_buffer_size = 8, stopped = True\<rparr>) \<and>
   sync_get_data (stop (snd (async_add_data (new_controller 8) [4, 5, 6]))) 5 10 [] =
     Inl RangePastEnd"
  by (simp add: sync_get_data_def ready_def actual_bytes_def bytes_to_take_def
        new_controller_def async_add_data_def stop_def)

text \<open>
  C4. A call with \<open>min_bytes > max_bytes\<close> is not turned away: this copy of
  \<open>sync_get_data\<close> does not compare the two (the second copy returns
  \<^verbatim>\<open>ErrorCode::InvalidArgs\<close> before it takes the mutex), and the \<open>ErrorCode\<close> of the
  header has no value for a bad argument. With \<open>min_bytes = 10\<close> and
  \<open>max_bytes = 3\<close>, a controller holding 10 bytes returns \<open>NoError\<close> with all 10
  bytes, more than \<open>max_bytes\<close>, and its buffer is emptied; an empty controller makes the
  caller sleep until the deadline, while a producer adds 3 bytes, and returns
  \<open>Timeout\<close>.
\<close>

theorem min_above_max_accepted:
  "sync_get_data \<lparr>buffer = [1, 2, 3, 4, 5, 6, 7, 8, 9, 10], max_buffer_size = 16,
                   stopped = False\<rparr> 10 3 [] =
     Inr (\<lparr>data = [1, 2, 3, 4, 5, 6, 7, 8, 9, 10], error = NoError, dropped_bytes = 0,
            buffer_size = 0\<rparr>,
          \<lparr>buffer = [], max_buffer_size = 16, stopped = False\<rparr>) \<and>
   sync_get_data (new_controller 16) 10 3 [[Add [1, 2]], [Add [3]]] =
     Inr (\<lparr>data = [], error = Timeout, dropped_bytes = 0, buffer_size = 3\<rparr>,
          \<lparr>buffer = [1, 2, 3], max_buffer_size = 16, stopped = False\<rparr>)"
  by (simp add: sync_get_data_def ready_def actual_bytes_def bytes_to_take_def
        new_controller_def async_add_data_def acts_def get_callback_def)

text \<open>
  C10. Let \<open>min_bytes \<ge> 1\<close>, and let the consumer find the controller not stopped and
  with fewer than \<open>min_bytes\<close> bytes every time it looks, until the deadline. Then
  \<open>sync_get_data\<close> returns \<open>Timeout\<close> with no data, and the call itself touches
  nothing: the state after it is the state before it with the calls the other threads
  made during the wait. When they made none, it is the state before the call.
\<close>

theorem timeout_leaves_buffer:
  assumes "1 \<le> min_bytes" and "starved min_bytes c sleeps"
  shows "sync_get_data c min_bytes max_bytes sleeps =
           Inr (\<lparr>data = [], error = Timeout, dropped_bytes = 0,
                  buffer_size = length (buffer (acts c (concat sleeps)))\<rparr>,
                acts c (concat sleeps)) \<and>
         (concat sleeps = [] \<longrightarrow>
            sync_get_data c min_bytes max_bytes sleeps =
              Inr (\<lparr>data = [], error = Timeout, dropped_bytes = 0,
                     buffer_size = length (buffer c)\<rparr>, c))"
proof -
  have "wait_for min_bytes c sleeps = (acts c (concat sleeps), False)"
    using assms(2) by (rule starved_wait_for)
  then have "sync_get_data c min_bytes max_bytes sleeps =
           Inr (\<lparr>data = [], error = Timeout, dropped_bytes = 0,
                  buffer_size = length (buffer (acts c (concat sleeps)))\<rparr>,
                acts c (concat sleeps))"
    by (simp add: sync_get_data_def)
  moreover have "acts c [] = c" by (simp add: acts_def)
  ultimately show ?thesis by (cases "concat sleeps = []") (simp_all only: simp_thms)
qed

theorem timeout_leaves_buffer_witness:
  "1 \<le> (5::nat) \<and> starved 5 (new_controller 8) [[Add [1, 2]], [], [Add [3]]] \<and>
   sync_get_data (new_controller 8) 5 5 [[Add [1, 2]], [], [Add [3]]] =
     Inr (\<lparr>data = [], error = Timeout, dropped_bytes = 0, buffer_size = 3\<rparr>,
          \<lparr>buffer = [1, 2, 3], max_buffer_size = 8, stopped = False\<rparr>) \<and>
   starved 5 (new_controller 8) [[]] \<and>
   concat [[] :: action list] = [] \<and>
   sync_get_data (new_controller 8) 5 5 [[]] =
     Inr (\<lparr>data = [], error = Timeout, dropped_bytes = 0, buffer_size = 0\<rparr>,
          new_controller 8)"
proof -
  have s1: "starved 5 (new_controller 8) [[Add [1, 2]], [], [Add [3]]]"
    by (simp add: new_controller_def acts_def get_callback_def async_add_data_def)
  have s2: "starved 5 (new_controller 8) [[]]"
    by (simp add: new_controller_def acts_def)
  have a: "acts (new_controller 8) (concat [[Add [1, 2]], [], [Add [3]]]) =
        \<lparr>buffer = [1, 2, 3], max_buffer_size = 8, stopped = False\<rparr>"
    by (simp add: new_controller_def acts_def get_callback_def async_add_data_def)
  from timeout_leaves_buffer [of 5 "new_controller 8" "[[Add [1, 2]], [], [Add [3]]]" 5] s1 a
  have "sync_get_data (new_controller 8) 5 5 [[Add [1, 2]], [], [Add [3]]] =
     Inr (\<lparr>data = [], error = Timeout, dropped_bytes = 0, buffer_size = 3\<rparr>,
          \<lparr>buffer = [1, 2, 3], max_buffer_size = 8, stopped = False\<rparr>)"
    by simp
  moreover from timeout_leaves_buffer [of 5 "new_controller 8" "[[]]" 5] s2
  have "sync_get_data (new_controller 8) 5 5 [[]] =
     Inr (\<lparr>data = [], error = Timeout, dropped_bytes = 0, buffer_size = 0\<rparr>,
          new_controller 8)"
    by (simp add: new_controller_def acts_def)
  ultimately show ?thesis using s1 s2 by simp
qed

section \<open>Construction\<close>

text \<open>
  C5, as the code has it. The constructor tests nothing. With capacity 0 it yields a
  controller that is not stopped and has an empty buffer; that controller accepts the
  empty sequence of bytes and turns every other one away with \<open>BufferOverflow\<close>,
  unchanged.
\<close>

theorem capacity_zero_constructed:
  "new_controller 0 = \<lparr>buffer = [], max_buffer_size = 0, stopped = False\<rparr> \<and>
   async_add_data (new_controller 0) [] = (NoError, new_controller 0) \<and>
   (d \<noteq> [] \<longrightarrow> async_add_data (new_controller 0) d = (BufferOverflow, new_controller 0))"
  by (simp add: new_controller_def async_add_data_def)

theorem capacity_zero_constructed_witness:
  "[1 :: Byte] \<noteq> [] \<and>
   async_add_data (new_controller 0) [1] = (BufferOverflow, new_controller 0)"
  using capacity_zero_constructed [of "[1]"] by (simp add: new_controller_def)

text \<open>
  Construction with capacity 0 does not fail: the controller exists, and its member
  functions answer as on any other controller.
\<close>

theorem capacity_zero_counterexample:
  "new_controller 0 = \<lparr>buffer = [], max_buffer_size = 0, stopped = False\<rparr> \<and>
   async_add_data (new_controller 0) [] = (NoError, new_controller 0) \<and>
   sync_get_data (new_controller 0) 0 0 [] =
     Inr (\<lparr>data = [], error = NoError, dropped_bytes = 0, buffer_size = 0\<rparr>,
          new_controller 0)"
  by (simp add: sync_get_data_def ready_def actual_bytes_def bytes_to_take_def
        new_controller_def async_add_data_def)

section \<open>The buffer and the capacity\<close>

lemma bounded_new: "bounded n (new_controller n)"
  by (simp add: bounded_def new_controller_def)

lemma bounded_add: "bounded n c \<Longrightarrow> bounded n (snd (async_add_data c d))"
  by (simp add: bounded_def async_add_data_def)

lemma bounded_stop: "bounded n c \<Longrightarrow> bounded n (stop c)"
  by (simp add: bounded_def stop_def)

lemma bounded_start: "bounded n c \<Longrightarrow> bounded n (start c)"
  by (simp add: bounded_def start_def)

lemma bounded_act: "bounded n c \<Longrightarrow> bounded n (act c a)"
  by (cases a) (simp_all add: get_callback_def bounded_add bounded_stop bounded_start)

lemma bounded_acts: "bounded n c \<Longrightarrow> bounded n (acts c as)"
  unfolding acts_def by (induction as arbitrary: c) (simp_all add: bounded_act)

lemma bounded_wait_for: "bounded n c \<Longrightarrow> bounded n (fst (wait_for m c sleeps))"
  by (induction sleeps arbitrary: c) (simp_all add: bounded_acts)

lemma bounded_sync_get_data:
  assumes "bounded n c" and "sync_get_data c m k sleeps = Inr (r, c')"
  shows "bounded n c'"
proof -
  obtain c1 b where w: "wait_for m c sleeps = (c1, b)" by (cases "wait_for m c sleeps")
  with bounded_wait_for [OF assms(1), of m sleeps] have "bounded n c1" by simp
  with assms(2) w show ?thesis
    by (auto simp: sync_get_data_def bounded_def Let_def split: if_splits bool.splits)
qed

lemma bounded_exec: "bounded n c \<Longrightarrow> exec c x = Inr c' \<Longrightarrow> bounded n c'"
  by (cases x)
     (auto simp: bounded_add bounded_stop bounded_start
           split: sum.splits prod.splits dest: bounded_sync_get_data)

lemma bounded_run: "bounded n c \<Longrightarrow> run c xs = Inr c' \<Longrightarrow> bounded n c'"
  by (induction xs arbitrary: c) (auto split: sum.splits dest: bounded_exec)

text \<open>
  As long as no call faults, the capacity stays the one given at construction and the
  buffer holds no more bytes than that.
\<close>

lemma bounded_unless_fault:
  "run (new_controller n) calls = Inr c \<Longrightarrow>
   max_buffer_size c = n \<and> length (buffer c) \<le> max_buffer_size c"
  using bounded_run [OF bounded_new, of n calls c] by (simp add: bounded_def)

text \<open>
  C7. The bound does not hold after every sequence of calls of the public member
  functions. On a fresh controller of capacity 4, adding the 2 bytes 7, 9 and stopping
  leads to a state within the bound; a following \<open>sync_get_data\<close> for at least 4 and at
  most 4 bytes erases the range of 4 bytes from the buffer of 2, past its end, and no
  state within the bound follows: the run faults. The same happens when the stop arrives
  while the consumer sleeps in that call.
\<close>

theorem run_leaves_bound:
  "run (new_controller 4) [AddData [7, 9], CallStop, CurrentBufferSize, IsStopped] =
     Inr \<lparr>buffer = [7, 9], max_buffer_size = 4, stopped = True\<rparr> \<and>
   run (new_controller 4) [AddData [7, 9], CallStop, GetData 4 4 []] = Inl RangePastEnd \<and>
   run (new_controller 4) [AddData [7, 9], GetData 4 4 [[Stop]]] = Inl RangePastEnd"
  by (simp add: sync_get_data_def ready_def actual_bytes_def bytes_to_take_def
        new_controller_def async_add_data_def stop_def acts_def)

section \<open>First in, first out\<close>

text \<open>
  C8. A producer adds the byte sequences \<open>ds\<close>, one call each, to a freshly constructed
  controller whose capacity is at least their total length. Every call returns
  \<open>NoError\<close>, and one following \<open>sync_get_data\<close> with \<open>min_bytes\<close> equal to the
  total and \<open>max_bytes\<close> at least the total returns \<open>NoError\<close> with exactly the
  concatenation of \<open>ds\<close> in the order of the calls, leaving the buffer empty.
\<close>

theorem fifo_round_trip:
  assumes "length (concat ds) \<le> n" and "length (concat ds) \<le> max_bytes"
    and "add_all (new_controller n) ds = (es, c)"
  shows "es = replicate (length ds) NoError \<and>
         sync_get_data c (length (concat ds)) max_bytes sleeps =
           Inr (\<lparr>data = concat ds, error = NoError, dropped_bytes = 0, buffer_size = 0\<rparr>,
                c\<lparr>buffer := []\<rparr>)"
proof -
  have "add_all (new_controller n) ds =
          (replicate (length ds) NoError,
           (new_controller n)\<lparr>buffer := buffer (new_controller n) @ concat ds\<rparr>)"
    using assms(1) by (intro add_all_fits) (simp_all add: new_controller_def)
  with assms(3) have es: "es = replicate (length ds) NoError"
    and c: "c = \<lparr>buffer = concat ds, max_buffer_size = n, stopped = False\<rparr>"
    by (simp_all add: new_controller_def)
  have "ready (length (concat ds)) c" by (simp add: ready_def c)
  then have "wait_for (length (concat ds)) c sleeps = (c, True)" by (rule wait_for_ready)
  with assms(2) have "sync_get_data c (length (concat ds)) max_bytes sleeps =
           Inr (\<lparr>data = concat ds, error = NoError, dropped_bytes = 0, buffer_size = 0\<rparr>,
                c\<lparr>buffer := []\<rparr>)"
    by (simp add: sync_get_data_def c actual_bytes_def bytes_to_take_def)
  with es show ?thesis by simp
qed

theorem fifo_round_trip_witness:
  "length (concat [[1, 2, 3, 4], [], [5, 6, 7, 8 :: Byte]]) \<le> (10::nat) \<and>
   length (concat [[1, 2, 3, 4], [], [5, 6, 7, 8 :: Byte]]) \<le> (8::nat) \<and>
   add_all (new_controller 10) [[1, 2, 3, 4], [], [5, 6, 7, 8]] =
     ([NoError, NoError, NoError],
      \<lparr>buffer = [1, 2, 3, 4, 5, 6, 7, 8], max_buffer_size = 10, stopped = False\<rparr>) \<and>
   sync_get_data \<lparr>buffer = [1, 2, 3, 4, 5, 6, 7, 8], max_buffer_size = 10, stopped = False\<rparr>
       8 8 [] =
     Inr (\<lparr>data = [1, 2, 3, 4, 5, 6, 7, 8], error = NoError, dropped_bytes = 0,
            buffer_size = 0\<rparr>,
          \<lparr>buffer = [], max_buffer_size = 10, stopped = False\<rparr>)"
proof -
  have a: "add_all (new_controller 10) [[1, 2, 3, 4], [], [5, 6, 7, 8]] =
     ([NoError, NoError, NoError],
      \<lparr>buffer = [1, 2, 3, 4, 5, 6, 7, 8], max_buffer_size = 10, stopped = False\<rparr>)"
    by (simp add: new_controller_def async_add_data_def)
  have l: "length (concat [[1, 2, 3, 4], [], [5, 6, 7, 8 :: Byte]]) = 8" by simp
  note r = fifo_round_trip [of "[[1, 2, 3, 4], [], [5, 6, 7, 8]]" 10 8
      "[NoError, NoError, NoError]"
      "\<lparr>buffer = [1, 2, 3, 4, 5, 6, 7, 8], max_buffer_size = 10, stopped = False\<rparr>" "[]",
      unfolded l]
  from r a show ?thesis by simp
qed

end
